theory Spec2Isabelle
  imports Main
begin

section \<open>The codex-connector task supervisor (src/index.js)\<close>

text \<open>
  The server keeps a table \<open>tasks\<close> of task records and a table \<open>activeProcesses\<close> of
  child-process handles, both keyed by task id. Every callback of the source (stream
  data, heartbeat interval, timeout, grace timers, \<open>close\<close>, \<open>error\<close>) and the two tool
  handlers that change the state (\<open>handleCodexAgent\<close>, \<open>handleCodexCancel\<close>) are
  embedded as functions from the server state to the server state; the handlers for
  status, listing and waiting only read the table. A callback is taken to run to
  completion once the event loop has picked it: the \<open>await\<close> points inside one
  callback are not interleaving points of this model, and the clock reads of one
  callback are one value \<open>now\<close>. What the callbacks do to the outside world (signals,
  notifications, log lines, spawning) is appended to the field \<open>effects\<close>, in program
  order. Appending to the log and writing the file are taken to succeed, except
  inside the \<open>try\<close> block of \<open>handleCodexCancel\<close>, where the source catches the failure.

  In the source a callback holds its task record in a closure. The model finds the
  record in the table under the task id; a callback for an id that is not in the
  table does nothing, and \<open>enabled\<close> below never lets that happen.
\<close>

subsection \<open>JavaScript values\<close>

type_synonym task_id = string

text \<open>A value that may be \<open>null\<close> or \<open>undefined\<close> is an option; a string is truthy when
  it is neither \<open>null\<close> nor empty.\<close>

definition truthy :: "string option \<Rightarrow> bool" where
  "truthy x = (case x of None \<Rightarrow> False | Some s \<Rightarrow> s \<noteq> [])"

text \<open>\<open>a || b\<close> on strings that may be \<open>null\<close>.\<close>

definition js_or :: "string option \<Rightarrow> string option \<Rightarrow> string option" where
  "js_or a b = (if truthy a then a else b)"

text \<open>\<open>a || "literal"\<close>.\<close>

definition or_default :: "string option \<Rightarrow> string \<Rightarrow> string" where
  "or_default a d = (case a of None \<Rightarrow> d | Some s \<Rightarrow> if s = [] then d else s)"

fun string_of_nat :: "nat \<Rightarrow> string" where
  "string_of_nat n =
     (if n < 10 then [''0123456789'' ! n]
      else string_of_nat (n div 10) @ [''0123456789'' ! (n mod 10)])"

declare string_of_nat.simps [simp del]

text \<open>An integer inside a template literal.\<close>

definition string_of_int :: "int \<Rightarrow> string" where
  "string_of_int i = (if i < 0 then CHR ''-'' # string_of_nat (nat (- i)) else string_of_nat (nat i))"

text \<open>The exit code inside a template literal: \<open>null\<close> prints as the word.\<close>

definition string_of_code :: "int option \<Rightarrow> string" where
  "string_of_code c = (case c of None \<Rightarrow> ''null'' | Some i \<Rightarrow> string_of_int i)"

definition string_of_opt :: "string option \<Rightarrow> string" where
  "string_of_opt x = (case x of None \<Rightarrow> ''null'' | Some s \<Rightarrow> s)"

subsection \<open>formatDuration, SIGNALS, getSignalName\<close>

text \<open>
  The branch for one second up to one minute prints \<open>(ms / 1000).toFixed(1)\<close>, a
  rounding of a binary floating point quotient. That rendering is the parameter
  \<open>fx\<close> of the model; the three other branches are integer arithmetic.
\<close>

definition formatDuration :: "(int \<Rightarrow> string) \<Rightarrow> int \<Rightarrow> string" where
  "formatDuration fx ms =
     (if ms < 1000 then string_of_int ms @ ''ms''
      else if ms < 60000 then fx ms @ ''s''
      else if ms < 3600000 then
        string_of_int (ms div 60000) @ ''m '' @ string_of_int ((ms mod 60000) div 1000) @ ''s''
      else string_of_int (ms div 3600000) @ ''h '' @ string_of_int ((ms mod 3600000) div 60000) @ ''m'')"

definition SIGNALS :: "int \<rightharpoonup> string" where
  "SIGNALS = map_of
     [(1, ''SIGHUP''), (2, ''SIGINT''), (3, ''SIGQUIT''), (6, ''SIGABRT''),
      (9, ''SIGKILL''), (14, ''SIGALRM''), (15, ''SIGTERM'')]"

definition getSignalName :: "int option \<Rightarrow> string option" where
  "getSignalName code =
     (case code of
        None \<Rightarrow> None
      | Some c \<Rightarrow>
          if c > 128 then
            (let signal = c - 128
             in Some (or_default (SIGNALS signal) (''signal '' @ string_of_int signal)))
          else None)"

subsection \<open>The task record\<close>

text \<open>
  The fields of \<open>taskRecord\<close> as \<open>handleCodexAgent\<close> creates it, followed by the five
  fields that the \<open>close\<close> and \<open>error\<close> callbacks add. Timestamps are milliseconds since
  the epoch (the source stores their ISO-8601 rendering and parses it back). A
  field that is \<open>null\<close> or not yet present is \<open>None\<close>. The status is the string the
  source stores.
\<close>

record taskRecord =
  id' :: task_id
  task :: string
  sandbox :: string
  workingDirectory :: string
  model :: string
  reasoningEffort :: string
  status :: string
  startedAt :: int
  logFile :: string
  resultFile :: string
  debugFile :: string
  pid :: "nat option"
  command :: string
  codexPath :: string
  stdoutBytes :: nat
  stderrBytes :: nat
  lastActivityAt :: int
  lastActivityType :: string
  lastOutputSnippet :: string
  heartbeatCount :: nat
  timeoutMs :: int
  exitCode :: "int option"
  exitSignal :: "string option"
  failureReason :: "string option"
  completedAt :: "int option"
  duration :: "int option"
  durationFormatted :: "string option"
  result :: "string option"
  error :: "string option"

subsection \<open>Effects and the server state\<close>

text \<open>
  \<open>sendProgress\<close> notifications, by call site: the start notice, the heartbeat
  (with the heartbeat count and the formatted elapsed time), the stall warning, the
  timeout notice, the cancellation notice, the completion notice (with the status
  it reports) and the process-error notice.
\<close>

datatype progress =
    TaskStarted
  | StillRunning nat string
  | PossiblyStalled string
  | TimeoutKilling
  | CancellationRequested
  | TaskFinished string
  | TaskError string

text \<open>Entries appended to the per-task log, by call site.\<close>

datatype log_entry =
    LogHeader
  | LogSpawned
  | LogOutput string
  | LogHeartbeat nat
  | LogStallWarning
  | LogTimeout
  | LogCancelled
  | LogSigkillSent
  | LogExitSummary
  | LogResultFile bool
  | LogProcessError

datatype effect =
    Progress task_id progress
  | Log task_id log_entry
  | Kill task_id string
  | Spawn task_id
  | WriteDebugFile task_id

text \<open>The two five-second timers: the one armed by the timeout callback and the one
  armed by \<open>handleCodexCancel\<close>.\<close>

datatype grace_kind = TimeoutGrace | CancelGrace

text \<open>
  \<open>heartbeatInterval\<close> and \<open>timeout\<close> hold the armed interval and timeout timers, by
  task id, each with its delay in milliseconds; \<open>graceTimers\<close> holds the pending
  five-second timers with theirs. \<open>disk\<close> is the content of
  \<open>TASKS_FILE\<close>: \<open>None\<close> while the file is missing or unreadable, otherwise the JSON
  object it holds. A handle in \<open>activeProcesses\<close> is represented by the pid of the
  child, which is undefined when the spawn failed.
\<close>

record sys =
  CODEX_PATH :: string
  LOGS_DIR :: string
  tasks :: "task_id \<rightharpoonup> taskRecord"
  activeProcesses :: "task_id \<rightharpoonup> nat option"
  heartbeatInterval :: "task_id \<rightharpoonup> int"
  timeout :: "task_id \<rightharpoonup> int"
  graceTimers :: "(task_id \<times> grace_kind \<times> int) list"
  effects :: "effect list"
  disk :: "(task_id \<rightharpoonup> taskRecord) option"

definition emit :: "effect list \<Rightarrow> sys \<Rightarrow> sys" where
  "emit es s = s\<lparr>effects := effects s @ es\<rparr>"

definition saveTasks :: "sys \<Rightarrow> sys" where
  "saveTasks s = s\<lparr>disk := Some (tasks s)\<rparr>"

subsection \<open>Stream data: updateActivity\<close>

text \<open>
  \<open>trim\<close> removes white space at both ends; the model knows the six ASCII white space
  characters (tab, line feed, vertical tab, form feed, carriage return, space).
  \<open>slice(-200)\<close> keeps the last 200 characters.
\<close>

definition js_space :: "char \<Rightarrow> bool" where
  "js_space c = (c \<in> set [CHR 0x09, CHR 0x0A, CHR 0x0B, CHR 0x0C, CHR 0x0D, CHR 0x20])"

definition js_trim :: "string \<Rightarrow> string" where
  "js_trim x = rev (dropWhile js_space (rev (dropWhile js_space x)))"

definition slice_last :: "nat \<Rightarrow> string \<Rightarrow> string" where
  "slice_last n x = drop (length x - n) x"

text \<open>The snippet argument is \<open>None\<close> when it is falsy (the default \<open>""\<close>); a chunk
  delivered by a stream is a Buffer, which is truthy whatever it holds.\<close>

definition updateActivity ::
  "string \<Rightarrow> nat \<Rightarrow> string option \<Rightarrow> int \<Rightarrow> taskRecord \<Rightarrow> taskRecord" where
  "updateActivity type bytes snippet now r =
     (let r1 = r\<lparr>lastActivityAt := now, lastActivityType := type\<rparr>;
          r2 = (if type = ''stdout'' then r1\<lparr>stdoutBytes := stdoutBytes r1 + bytes\<rparr> else r1);
          r3 = (if type = ''stderr'' then r2\<lparr>stderrBytes := stderrBytes r2 + bytes\<rparr> else r2)
      in case snippet of
           None \<Rightarrow> r3
         | Some x \<Rightarrow>
             (let cleaned = slice_last 200 (js_trim x)
              in if length cleaned > 10 then r3\<lparr>lastOutputSnippet := cleaned\<rparr> else r3))"

definition on_stdout_data :: "task_id \<Rightarrow> string \<Rightarrow> int \<Rightarrow> sys \<Rightarrow> sys" where
  "on_stdout_data taskId data now s =
     (case tasks s taskId of
        None \<Rightarrow> s
      | Some r \<Rightarrow>
          (emit [Log taskId (LogOutput data)] s)
            \<lparr>tasks := (tasks s)(taskId \<mapsto> updateActivity ''stdout'' (length data) (Some data) now r)\<rparr>)"

definition on_stderr_data :: "task_id \<Rightarrow> string \<Rightarrow> int \<Rightarrow> sys \<Rightarrow> sys" where
  "on_stderr_data taskId data now s =
     (case tasks s taskId of
        None \<Rightarrow> s
      | Some r \<Rightarrow>
          (emit [Log taskId (LogOutput (''[stderr] '' @ data))] s)
            \<lparr>tasks := (tasks s)(taskId \<mapsto> updateActivity ''stderr'' (length data) (Some data) now r)\<rparr>)"

subsection \<open>The heartbeat interval\<close>

definition heartbeat_callback :: "(int \<Rightarrow> string) \<Rightarrow> task_id \<Rightarrow> int \<Rightarrow> sys \<Rightarrow> sys" where
  "heartbeat_callback fx taskId now s =
     (case tasks s taskId of
        None \<Rightarrow> s
      | Some r \<Rightarrow>
          if status r \<noteq> ''running'' then s\<lparr>heartbeatInterval := (heartbeatInterval s)(taskId := None)\<rparr>
          else
            (let r' = r\<lparr>heartbeatCount := heartbeatCount r + 1\<rparr>;
                 elapsed = now - startedAt r';
                 lastActivity = now - lastActivityAt r';
                 beat = [Log taskId (LogHeartbeat (heartbeatCount r')),
                         Progress taskId (StillRunning (heartbeatCount r') (formatDuration fx elapsed))];
                 warn = (if lastActivity > 120000
                         then [Log taskId LogStallWarning,
                               Progress taskId (PossiblyStalled (formatDuration fx lastActivity))]
                         else [])
             in saveTasks (emit (beat @ warn) (s\<lparr>tasks := (tasks s)(taskId \<mapsto> r')\<rparr>))))"

subsection \<open>The timeout and the two grace timers\<close>

definition timeout_callback :: "(int \<Rightarrow> string) \<Rightarrow> task_id \<Rightarrow> int \<Rightarrow> sys \<Rightarrow> sys" where
  "timeout_callback fx taskId now s =
     (case tasks s taskId of
        None \<Rightarrow> s
      | Some r \<Rightarrow>
          (let elapsed = now - startedAt r;
               r' = r\<lparr>failureReason :=
                        Some (''Timeout after '' @ formatDuration fx elapsed @
                              '' (limit: '' @ formatDuration fx (timeoutMs r) @ '')'')\<rparr>;
               s1 = s\<lparr>tasks := (tasks s)(taskId \<mapsto> r'), timeout := (timeout s)(taskId := None)\<rparr>;
               s2 = emit [Log taskId LogTimeout, Progress taskId TimeoutKilling,
                          Kill taskId ''SIGTERM''] s1
           in s2\<lparr>graceTimers := graceTimers s2 @ [(taskId, TimeoutGrace, 5000)]\<rparr>))"

text \<open>The callback of the five-second timer, for either kind; firing removes the timer.\<close>

definition grace_callback :: "task_id \<Rightarrow> grace_kind \<Rightarrow> sys \<Rightarrow> sys" where
  "grace_callback taskId k s =
     (let s1 = s\<lparr>graceTimers := remove1 (taskId, k, 5000) (graceTimers s)\<rparr>
      in case tasks s taskId of
           None \<Rightarrow> s1
         | Some r \<Rightarrow>
             if status r = ''running'' then
               (case k of
                  TimeoutGrace \<Rightarrow> emit [Kill taskId ''SIGKILL''] s1
                | CancelGrace \<Rightarrow> emit [Kill taskId ''SIGKILL'', Log taskId LogSigkillSent] s1)
             else s1)"

subsection \<open>The close and error callbacks\<close>

text \<open>What the \<open>close\<close> callback writes into the record: exit code \<open>code\<close>, signal
  \<open>signal\<close>, at time \<open>now\<close>, with \<open>res\<close> the content of the result file if it could be
  read.\<close>

definition close_failureReason ::
  "string option \<Rightarrow> int option \<Rightarrow> string option \<Rightarrow> string option" where
  "close_failureReason failureReason0 code signal =
     (let signalName = js_or signal (getSignalName code)
      in if \<not> truthy failureReason0 then
           (if truthy signal then Some (''Killed by signal: '' @ string_of_opt signal)
            else if truthy signalName \<and> code \<noteq> Some 0 then
              Some (''Killed by '' @ string_of_opt signalName @
                    '' (exit code '' @ string_of_code code @ '')'')
            else if code \<noteq> Some 0 then Some (''Exited with code '' @ string_of_code code)
            else failureReason0)
         else failureReason0)"

definition close_record ::
  "(int \<Rightarrow> string) \<Rightarrow> int option \<Rightarrow> string option \<Rightarrow> int \<Rightarrow> string option \<Rightarrow>
   taskRecord \<Rightarrow> taskRecord" where
  "close_record fx code signal now res r =
     (let elapsed = now - startedAt r;
          failureReason' = close_failureReason (failureReason r) code signal;
          signalName = js_or signal (getSignalName code);
          r' = r\<lparr>status := (if code = Some 0 then ''completed'' else ''failed''),
                 exitCode := code,
                 exitSignal := js_or signal signalName,
                 completedAt := Some now,
                 duration := Some elapsed,
                 durationFormatted := Some (formatDuration fx elapsed),
                 result := res,
                 pid := None\<rparr>
      in if truthy failureReason' then r'\<lparr>failureReason := failureReason'\<rparr> else r')"

definition on_close ::
  "(int \<Rightarrow> string) \<Rightarrow> task_id \<Rightarrow> int option \<Rightarrow> string option \<Rightarrow> int \<Rightarrow> string option \<Rightarrow>
   sys \<Rightarrow> sys" where
  "on_close fx taskId code signal now res s =
     (case tasks s taskId of
        None \<Rightarrow> s
      | Some r \<Rightarrow>
          (let s1 = s\<lparr>heartbeatInterval := (heartbeatInterval s)(taskId := None),
                      timeout := (timeout s)(taskId := None),
                      activeProcesses := (activeProcesses s)(taskId := None)\<rparr>;
               r' = close_record fx code signal now res r;
               s2 = emit [Log taskId LogExitSummary, Log taskId (LogResultFile (res \<noteq> None))] s1;
               s3 = s2\<lparr>tasks := (tasks s2)(taskId \<mapsto> r')\<rparr>;
               s4 = emit [Progress taskId (TaskFinished (status r')), WriteDebugFile taskId] s3
           in saveTasks s4))"

definition error_record ::
  "(int \<Rightarrow> string) \<Rightarrow> string \<Rightarrow> string option \<Rightarrow> int \<Rightarrow> taskRecord \<Rightarrow> taskRecord" where
  "error_record fx message code now r =
     (let elapsed = now - startedAt r
      in r\<lparr>status := ''failed'',
            error := Some message,
            failureReason :=
              Some (''Process error: '' @ message @ '' ('' @ or_default code ''unknown'' @ '')''),
            completedAt := Some now,
            duration := Some elapsed,
            durationFormatted := Some (formatDuration fx elapsed),
            pid := None\<rparr>)"

definition on_error ::
  "(int \<Rightarrow> string) \<Rightarrow> task_id \<Rightarrow> string \<Rightarrow> string option \<Rightarrow> int \<Rightarrow> sys \<Rightarrow> sys" where
  "on_error fx taskId message code now s =
     (case tasks s taskId of
        None \<Rightarrow> s
      | Some r \<Rightarrow>
          (let s1 = s\<lparr>heartbeatInterval := (heartbeatInterval s)(taskId := None),
                      timeout := (timeout s)(taskId := None),
                      activeProcesses := (activeProcesses s)(taskId := None)\<rparr>;
               s2 = emit [Log taskId LogProcessError, Progress taskId (TaskError message)] s1;
               s3 = s2\<lparr>tasks := (tasks s2)(taskId \<mapsto> error_record fx message code now r)\<rparr>
           in saveTasks (emit [WriteDebugFile taskId] s3)))"

subsection \<open>handleCodexCancel\<close>

text \<open>The result of a tool call: the text of its single content item and the
  \<open>isError\<close> flag (absent in the source when it is not an error).\<close>

record tool_result =
  content :: string
  isError :: bool

text \<open>
  \<open>append_error\<close> is the outcome of appending the cancellation line to the log inside
  the \<open>try\<close> block: \<open>None\<close> when the append succeeds, the message of the exception
  otherwise, which the \<open>catch\<close> block reports.
\<close>

definition handleCodexCancel :: "task_id \<Rightarrow> string option \<Rightarrow> sys \<Rightarrow> tool_result \<times> sys" where
  "handleCodexCancel taskId append_error s =
     (case tasks s taskId of
        None \<Rightarrow> (\<lparr>content = ''Task not found: '' @ taskId, isError = True\<rparr>, s)
      | Some r \<Rightarrow>
          if status r \<noteq> ''running'' then
            (\<lparr>content = ''Task '' @ taskId @ '' is not running (status: '' @ status r @ '')'',
              isError = False\<rparr>, s)
          else
            (case activeProcesses s taskId of
               None \<Rightarrow>
                 (\<lparr>content = ''Task '' @ taskId @ '' has no active process handle'',
                   isError = True\<rparr>, s)
             | Some codex \<Rightarrow>
                 (let s1 = s\<lparr>tasks := (tasks s)(taskId \<mapsto> r\<lparr>failureReason := Some ''Cancelled by user''\<rparr>)\<rparr>
                  in case append_error of
                       Some message \<Rightarrow>
                         (\<lparr>content = ''Failed to cancel task: '' @ message, isError = True\<rparr>, s1)
                     | None \<Rightarrow>
                         (let s2 = emit [Log taskId LogCancelled,
                                         Progress taskId CancellationRequested,
                                         Kill taskId ''SIGTERM''] s1;
                              s3 = s2\<lparr>graceTimers := graceTimers s2 @ [(taskId, CancelGrace, 5000)]\<rparr>
                          in (\<lparr>content = ''Sent SIGTERM to task '' @ taskId @ '' (PID '' @
                                         (case pid r of None \<Rightarrow> ''null'' | Some p \<Rightarrow> string_of_nat p) @
                                         ''). Task will be cancelled.'',
                               isError = False\<rparr>, s3)))))"

subsection \<open>handleCodexAgent\<close>

record agent_args =
  arg_task :: string
  arg_sandbox :: "string option"
  arg_workingDirectory :: string
  arg_model :: "string option"
  arg_reasoningEffort :: "string option"
  arg_async :: "bool option"
  arg_timeoutMs :: "int option"

definition DEFAULT_MODEL :: string where
  "DEFAULT_MODEL = ''gpt-5.2-codex''"

definition DEFAULT_REASONING_EFFORT :: string where
  "DEFAULT_REASONING_EFFORT = ''high''"

definition join_with :: "string \<Rightarrow> string list \<Rightarrow> string" where
  "join_with sep xs = (case xs of [] \<Rightarrow> [] | y # ys \<Rightarrow> y @ concat (map (\<lambda>z. sep @ z) ys))"

definition quote_arg :: "string \<Rightarrow> string" where
  "quote_arg a = (if CHR '' '' \<in> set a then [CHR 0x22] @ a @ [CHR 0x22] else a)"

text \<open>
  The part of \<open>handleCodexAgent\<close> that runs before it returns (in async mode) or starts
  to wait for the completion promise (otherwise). \<open>taskId\<close> is the first eight
  characters of \<open>randomUUID()\<close>, \<open>codex_pid\<close> the pid of the spawned child (undefined when
  the spawn failed) and \<open>now\<close> the clock.
\<close>

definition handleCodexAgent :: "agent_args \<Rightarrow> task_id \<Rightarrow> nat option \<Rightarrow> int \<Rightarrow> sys \<Rightarrow> sys" where
  "handleCodexAgent args taskId codex_pid now s =
     (let task' = arg_task args;
          sandbox' = or_default (arg_sandbox args) ''danger-full-access'';
          workingDirectory' = arg_workingDirectory args;
          model' = or_default (arg_model args) DEFAULT_MODEL;
          reasoningEffort' = or_default (arg_reasoningEffort args) DEFAULT_REASONING_EFFORT;
          timeoutMs' = (case arg_timeoutMs args of None \<Rightarrow> 0 | Some n \<Rightarrow> n);
          logFile' = LOGS_DIR s @ ''/'' @ taskId @ ''.log'';
          resultFile' = LOGS_DIR s @ ''/'' @ taskId @ ''.result'';
          debugFile' = LOGS_DIR s @ ''/'' @ taskId @ ''.debug.json'';
          codexArgs = [''exec'', ''--full-auto'', ''--model'', model', ''-c'',
                       ''reasoning_effort='' @ [CHR 0x22] @ reasoningEffort' @ [CHR 0x22],
                       ''--sandbox'', sandbox', ''--output-last-message'', resultFile', task'];
          fullCommand = CODEX_PATH s @ '' '' @ join_with '' '' (map quote_arg codexArgs);
          taskRecord =
            \<lparr>id' = taskId, task = task', sandbox = sandbox',
             workingDirectory = workingDirectory', model = model',
             reasoningEffort = reasoningEffort', status = ''running'', startedAt = now,
             logFile = logFile', resultFile = resultFile', debugFile = debugFile',
             pid = None, command = fullCommand, codexPath = CODEX_PATH s,
             stdoutBytes = 0, stderrBytes = 0, lastActivityAt = now,
             lastActivityType = ''started'', lastOutputSnippet = [], heartbeatCount = 0,
             timeoutMs = timeoutMs', exitCode = None, exitSignal = None,
             failureReason = None, completedAt = None, duration = None,
             durationFormatted = None, result = None, error = None\<rparr>;
          s1 = saveTasks (s\<lparr>tasks := (tasks s)(taskId \<mapsto> taskRecord)\<rparr>);
          s2 = emit [WriteDebugFile taskId, Log taskId LogHeader, Progress taskId TaskStarted,
                     Spawn taskId] s1;
          s3 = s2\<lparr>tasks := (tasks s2)(taskId \<mapsto> taskRecord\<lparr>pid := codex_pid\<rparr>),
                  activeProcesses := (activeProcesses s2)(taskId \<mapsto> codex_pid)\<rparr>;
          s4 = saveTasks (emit [Log taskId LogSpawned] s3);
          s5 = s4\<lparr>heartbeatInterval := (heartbeatInterval s4)(taskId \<mapsto> 30000)\<rparr>
      in if timeoutMs' > 0 then s5\<lparr>timeout := (timeout s5)(taskId \<mapsto> timeoutMs')\<rparr> else s5)"

subsection \<open>initDirs and a restart of the server\<close>

text \<open>
  \<open>initDirs\<close> reads \<open>TASKS_FILE\<close> and walks the entries of the parsed object. Its input
  is \<open>None\<close> when reading or parsing throws (the \<open>catch\<close> block leaves the table as it
  is), otherwise \<open>Object.entries\<close> of the parsed object, whose values are the records
  that \<open>saveTasks\<close> wrote.
\<close>

definition reconcile :: "taskRecord \<Rightarrow> taskRecord" where
  "reconcile t =
     (if status t = ''running''
      then t\<lparr>status := ''interrupted'',
             failureReason := Some ''Server restarted while task was running''\<rparr>
      else t)"

fun initDirs_loop ::
  "(task_id \<times> taskRecord) list \<Rightarrow> (task_id \<rightharpoonup> taskRecord) \<Rightarrow> (task_id \<rightharpoonup> taskRecord)" where
  "initDirs_loop [] m = m"
| "initDirs_loop ((i, t) # es) m = initDirs_loop es (m(i \<mapsto> reconcile t))"

definition initDirs :: "(task_id \<times> taskRecord) list option \<Rightarrow> sys \<Rightarrow> sys" where
  "initDirs file s =
     (case file of None \<Rightarrow> s | Some savedTasks \<Rightarrow> s\<lparr>tasks := initDirs_loop savedTasks (tasks s)\<rparr>)"

text \<open>A new server process: the tables and timers of the module start empty, the
  file and what the outside world has seen stay, and \<open>main\<close> calls \<open>initDirs\<close>.\<close>

definition restart :: "(task_id \<times> taskRecord) list option \<Rightarrow> sys \<Rightarrow> sys" where
  "restart file s =
     initDirs file
       (s\<lparr>tasks := Map.empty, activeProcesses := Map.empty, heartbeatInterval := Map.empty,
          timeout := Map.empty, graceTimers := []\<rparr>)"

definition init_sys :: "string \<Rightarrow> string \<Rightarrow> sys" where
  "init_sys codex_path logs_dir =
     \<lparr>CODEX_PATH = codex_path, LOGS_DIR = logs_dir, tasks = Map.empty,
      activeProcesses = Map.empty, heartbeatInterval = Map.empty, timeout = Map.empty,
      graceTimers = [], effects = [], disk = None\<rparr>"

subsection \<open>Events and reachable states\<close>

text \<open>
  One event per callback or tool call that changes the state, with what the
  environment supplies (clock, exit code, chunk, ...). \<open>step\<close> runs the callback.
\<close>

datatype event =
    Start agent_args task_id "nat option" int
  | StdoutData task_id string int
  | StderrData task_id string int
  | Heartbeat task_id int
  | TimeoutFires task_id int
  | GraceFires task_id grace_kind
  | Close task_id "int option" "string option" int "string option"
  | ProcError task_id string "string option" int
  | Cancel task_id "string option"
  | Restart "(task_id \<times> taskRecord) list option"

fun step :: "(int \<Rightarrow> string) \<Rightarrow> event \<Rightarrow> sys \<Rightarrow> sys" where
  "step fx (Start args taskId codex_pid now) s = handleCodexAgent args taskId codex_pid now s"
| "step fx (StdoutData taskId data now) s = on_stdout_data taskId data now s"
| "step fx (StderrData taskId data now) s = on_stderr_data taskId data now s"
| "step fx (Heartbeat taskId now) s = heartbeat_callback fx taskId now s"
| "step fx (TimeoutFires taskId now) s = timeout_callback fx taskId now s"
| "step fx (GraceFires taskId k) s = grace_callback taskId k s"
| "step fx (Close taskId code signal now res) s = on_close fx taskId code signal now res s"
| "step fx (ProcError taskId message code now) s = on_error fx taskId message code now s"
| "step fx (Cancel taskId append_error) s = snd (handleCodexCancel taskId append_error s)"
| "step fx (Restart file) s = restart file s"

text \<open>
  When an event can happen. A new task gets an id that is not in the table
  (\<open>randomUUID\<close>). The callbacks of a task exist in the process that started it, so
  its record is in the table; a timer fires only while it is armed. The model does
  not track which tasks the running process has started: it lets the stream, \<open>close\<close>
  and \<open>error\<close> callbacks run for every record of the table, which covers every run
  of the server and more. A restart reads the file as \<open>saveTasks\<close> left it, each key
  once.
\<close>

fun enabled :: "event \<Rightarrow> sys \<Rightarrow> bool" where
  "enabled (Start args taskId codex_pid now) s = (tasks s taskId = None)"
| "enabled (StdoutData taskId data now) s = (tasks s taskId \<noteq> None)"
| "enabled (StderrData taskId data now) s = (tasks s taskId \<noteq> None)"
| "enabled (Heartbeat taskId now) s = (tasks s taskId \<noteq> None \<and> heartbeatInterval s taskId \<noteq> None)"
| "enabled (TimeoutFires taskId now) s = (tasks s taskId \<noteq> None \<and> timeout s taskId \<noteq> None)"
| "enabled (GraceFires taskId k) s = ((taskId, k, 5000) \<in> set (graceTimers s))"
| "enabled (Close taskId code signal now res) s = (tasks s taskId \<noteq> None)"
| "enabled (ProcError taskId message code now) s = (tasks s taskId \<noteq> None)"
| "enabled (Cancel taskId append_error) s = True"
| "enabled (Restart file) s =
     (case file of
        None \<Rightarrow> disk s = None
      | Some es \<Rightarrow> distinct (map fst es) \<and> disk s = Some (map_of es))"

inductive runs :: "(int \<Rightarrow> string) \<Rightarrow> sys \<Rightarrow> sys \<Rightarrow> bool" for fx :: "int \<Rightarrow> string" and s0 :: sys where
  runs_refl: "runs fx s0 s0"
| runs_step: "runs fx s0 s \<Longrightarrow> enabled e s \<Longrightarrow> runs fx s0 (step fx e s)"

definition reachable :: "(int \<Rightarrow> string) \<Rightarrow> string \<Rightarrow> string \<Rightarrow> sys \<Rightarrow> bool" where
  "reachable fx codex_path logs_dir s = runs fx (init_sys codex_path logs_dir) s"

subsection \<open>A concrete server state\<close>

text \<open>
  The inputs at which the theorems below are instantiated: a rendering for the
  floating point branch of \<open>formatDuration\<close>, the arguments of one tool call, the
  record that \<open>handleCodexAgent\<close> creates for them at time 1000 with child pid 4242,
  and the server state right after that call.
\<close>

definition example_fx :: "int \<Rightarrow> string" where
  "example_fx ms = string_of_int (ms div 1000) @ ''.'' @ string_of_int ((ms mod 1000) div 100)"

definition example_args :: agent_args where
  "example_args = \<lparr>arg_task = ''fix the build'', arg_sandbox = None, arg_workingDirectory = ''/w'',
     arg_model = None, arg_reasoningEffort = None, arg_async = Some True, arg_timeoutMs = Some 60000\<rparr>"

definition example_record :: taskRecord where
  "example_record =
     \<lparr>id' = ''a1b2c3d4'', task = ''fix the build'', sandbox = ''danger-full-access'',
      workingDirectory = ''/w'', model = ''gpt-5.2-codex'', reasoningEffort = ''high'',
      status = ''running'', startedAt = 1000, logFile = ''/logs/a1b2c3d4.log'',
      resultFile = ''/logs/a1b2c3d4.result'', debugFile = ''/logs/a1b2c3d4.debug.json'',
      pid = Some 4242,
      command = ''codex exec --full-auto --model gpt-5.2-codex -c reasoning_effort='' @
                [CHR 0x22] @ ''high'' @ [CHR 0x22] @
                '' --sandbox danger-full-access --output-last-message /logs/a1b2c3d4.result '' @
                [CHR 0x22] @ ''fix the build'' @ [CHR 0x22],
      codexPath = ''codex'', stdoutBytes = 0, stderrBytes = 0, lastActivityAt = 1000,
      lastActivityType = ''started'', lastOutputSnippet = [], heartbeatCount = 0,
      timeoutMs = 60000, exitCode = None, exitSignal = None, failureReason = None,
      completedAt = None, duration = None, durationFormatted = None, result = None,
      error = None\<rparr>"

definition example_sys :: sys where
  "example_sys =
     \<lparr>CODEX_PATH = ''codex'', LOGS_DIR = ''/logs'',
      tasks = [''a1b2c3d4'' \<mapsto> example_record],
      activeProcesses = [''a1b2c3d4'' \<mapsto> Some 4242],
      heartbeatInterval = [''a1b2c3d4'' \<mapsto> 30000],
      timeout = [''a1b2c3d4'' \<mapsto> 60000],
      graceTimers = [],
      effects = [WriteDebugFile ''a1b2c3d4'', Log ''a1b2c3d4'' LogHeader,
                 Progress ''a1b2c3d4'' TaskStarted, Spawn ''a1b2c3d4'',
                 Log ''a1b2c3d4'' LogSpawned],
      disk = Some [''a1b2c3d4'' \<mapsto> example_record]\<rparr>"

subsection \<open>Invariants and observations\<close>

text \<open>
  The invariant of a record behind claim C4: \<open>completedAt\<close> is present exactly when the
  status is \<open>completed\<close> or \<open>failed\<close>, and the status is one of the four strings the
  code ever stores. \<open>sys_inv\<close> asks it of every record in the table and in the file.
\<close>

definition record_inv :: "taskRecord \<Rightarrow> bool" where
  "record_inv r =
     (((completedAt r \<noteq> None) = (status r = ''completed'' \<or> status r = ''failed''))
      \<and> (status r = ''running'' \<or> status r = ''completed'' \<or> status r = ''failed''
           \<or> status r = ''interrupted''))"

definition table_inv :: "(task_id \<rightharpoonup> taskRecord) \<Rightarrow> bool" where
  "table_inv m = (\<forall>t r. m t = Some r \<longrightarrow> record_inv r)"

definition sys_inv :: "sys \<Rightarrow> bool" where
  "sys_inv s = (table_inv (tasks s) \<and> (case disk s of None \<Rightarrow> True | Some m \<Rightarrow> table_inv m))"

text \<open>
  The heartbeat events of a task among the effects: the heartbeat line and the
  heartbeat notification, the stall warning line and the stall notification.
\<close>

fun is_heartbeat :: "task_id \<Rightarrow> effect \<Rightarrow> bool" where
  "is_heartbeat t (Progress u (StillRunning n e)) = (u = t)"
| "is_heartbeat t (Progress u (PossiblyStalled e)) = (u = t)"
| "is_heartbeat t (Log u (LogHeartbeat n)) = (u = t)"
| "is_heartbeat t (Log u LogStallWarning) = (u = t)"
| "is_heartbeat t x = False"

definition heartbeat_events :: "task_id \<Rightarrow> effect list \<Rightarrow> effect list" where
  "heartbeat_events t es = filter (is_heartbeat t) es"







section \<open>Lemmas about the callbacks\<close>

lemma close_record_keeps_reason:
  assumes "failureReason r = Some x" and "x \<noteq> []"
  shows "failureReason (close_record fx code signal now res r) = Some x"
  using assms by (simp add: close_record_def close_failureReason_def truthy_def Let_def)

lemma close_record_status:
  "status (close_record fx code signal now res r) = (if code = Some 0 then ''completed'' else ''failed'')"
  by (simp add: close_record_def Let_def)

lemma tasks_on_close:
  "tasks s taskId = Some r \<Longrightarrow>
   tasks (on_close fx taskId code signal now res s) = (tasks s)(taskId \<mapsto> close_record fx code signal now res r)"
  by (simp add: on_close_def Let_def saveTasks_def emit_def)

lemma cancel_live:
  assumes "tasks s taskId = Some r" and "status r = ''running''"
    and "activeProcesses s taskId = Some codex"
  shows "snd (handleCodexCancel taskId None s) =
           s\<lparr>tasks := (tasks s)(taskId \<mapsto> r\<lparr>failureReason := Some ''Cancelled by user''\<rparr>),
             effects := effects s @ [Log taskId LogCancelled, Progress taskId CancellationRequested,
                                      Kill taskId ''SIGTERM''],
             graceTimers := graceTimers s @ [(taskId, CancelGrace, 5000)]\<rparr>"
  using assms by (simp add: handleCodexCancel_def Let_def emit_def)


lemma initDirs_loop_other:
  "i \<notin> fst ` set es \<Longrightarrow> initDirs_loop es m i = m i"
  by (induction es arbitrary: m) auto

lemma initDirs_loop_entry:
  "distinct (map fst es) \<Longrightarrow> (i, t) \<in> set es \<Longrightarrow> initDirs_loop es m i = Some (reconcile t)"
proof (induction es arbitrary: m)
  case Nil
  then show ?case by simp
next
  case (Cons e es)
  obtain j u where e: "e = (j, u)" by (cases e)
  show ?case
  proof (cases "(i, t) = e")
    case True
    with Cons.prems e have "i \<notin> fst ` set es" by auto
    with True e show ?thesis by (simp add: initDirs_loop_other)
  next
    case False
    with Cons e show ?thesis by auto
  qed
qed

lemma timeout_fired:
  assumes "tasks s taskId = Some r"
  shows "timeout_callback fx taskId now s =
           s\<lparr>tasks := (tasks s)(taskId \<mapsto> r\<lparr>failureReason :=
                        Some (''Timeout after '' @ formatDuration fx (now - startedAt r) @
                              '' (limit: '' @ formatDuration fx (timeoutMs r) @ '')'')\<rparr>),
             timeout := (timeout s)(taskId := None),
             effects := effects s @ [Log taskId LogTimeout, Progress taskId TimeoutKilling,
                                      Kill taskId ''SIGTERM''],
             graceTimers := graceTimers s @ [(taskId, TimeoutGrace, 5000)]\<rparr>"
  using assms by (simp add: timeout_callback_def Let_def emit_def)





subsection \<open>The invariant of the records\<close>

lemma table_inv_upd: "table_inv m \<Longrightarrow> record_inv r \<Longrightarrow> table_inv (m(t \<mapsto> r))"
  by (simp add: table_inv_def)

lemma table_inv_get: "table_inv m \<Longrightarrow> m t = Some r \<Longrightarrow> record_inv r"
  by (simp add: table_inv_def)

lemma record_inv_close: "record_inv (close_record fx code signal now res r)"
  by (simp add: record_inv_def close_record_def Let_def)

lemma record_inv_error: "record_inv (error_record fx message code now r)"
  by (simp add: record_inv_def error_record_def Let_def)

lemma record_inv_activity: "record_inv r \<Longrightarrow> record_inv (updateActivity type bytes snippet now r)"
  by (simp add: record_inv_def updateActivity_def Let_def split: option.splits)

lemma record_inv_reconcile: "record_inv r \<Longrightarrow> record_inv (reconcile r)"
  by (auto simp: record_inv_def reconcile_def)

lemma sys_inv_start: "sys_inv s \<Longrightarrow> sys_inv (handleCodexAgent args taskId codex_pid now s)"
  by (simp add: sys_inv_def handleCodexAgent_def Let_def saveTasks_def emit_def table_inv_upd
      record_inv_def)

lemma sys_inv_stdout: "sys_inv s \<Longrightarrow> sys_inv (on_stdout_data taskId data now s)"
  by (auto simp: sys_inv_def on_stdout_data_def emit_def split: option.splits
      intro!: table_inv_upd record_inv_activity elim: table_inv_get)

lemma sys_inv_stderr: "sys_inv s \<Longrightarrow> sys_inv (on_stderr_data taskId data now s)"
  by (auto simp: sys_inv_def on_stderr_data_def emit_def split: option.splits
      intro!: table_inv_upd record_inv_activity elim: table_inv_get)

lemma record_inv_heartbeatCount: "record_inv (r\<lparr>heartbeatCount := n\<rparr>) = record_inv r"
  by (simp add: record_inv_def)

lemma record_inv_failureReason: "record_inv (r\<lparr>failureReason := x\<rparr>) = record_inv r"
  by (simp add: record_inv_def)

lemma sys_inv_heartbeat: "sys_inv s \<Longrightarrow> sys_inv (heartbeat_callback fx taskId now s)"
  by (auto simp: sys_inv_def heartbeat_callback_def Let_def saveTasks_def emit_def
      record_inv_heartbeatCount split: option.splits
      intro!: table_inv_upd elim: table_inv_get)

lemma sys_inv_timeout: "sys_inv s \<Longrightarrow> sys_inv (timeout_callback fx taskId now s)"
  by (auto simp: sys_inv_def timeout_callback_def Let_def emit_def
      record_inv_failureReason split: option.splits
      intro!: table_inv_upd elim: table_inv_get)

lemma sys_inv_grace: "sys_inv s \<Longrightarrow> sys_inv (grace_callback taskId k s)"
  by (auto simp: sys_inv_def grace_callback_def Let_def emit_def
      split: option.splits grace_kind.splits)

lemma sys_inv_close: "sys_inv s \<Longrightarrow> sys_inv (on_close fx taskId code signal now res s)"
  by (auto simp: sys_inv_def on_close_def Let_def saveTasks_def emit_def record_inv_close
      split: option.splits intro!: table_inv_upd)

lemma sys_inv_error: "sys_inv s \<Longrightarrow> sys_inv (on_error fx taskId message code now s)"
  by (auto simp: sys_inv_def on_error_def Let_def saveTasks_def emit_def record_inv_error
      split: option.splits intro!: table_inv_upd)

lemma sys_inv_cancel: "sys_inv s \<Longrightarrow> sys_inv (snd (handleCodexCancel taskId append_error s))"
  by (auto simp: sys_inv_def handleCodexCancel_def Let_def emit_def record_inv_failureReason
      split: option.splits intro!: table_inv_upd elim: table_inv_get)

lemma table_inv_loop:
  "table_inv m \<Longrightarrow> (\<forall>(i, t) \<in> set es. record_inv t) \<Longrightarrow> table_inv (initDirs_loop es m)"
  by (induction es arbitrary: m) (auto simp: table_inv_upd record_inv_reconcile)

lemma sys_inv_restart:
  assumes "sys_inv s" and "enabled (Restart f) s"
  shows "sys_inv (restart f s)"
proof (cases f)
  case None
  with assms show ?thesis by (simp add: restart_def initDirs_def sys_inv_def table_inv_def)
next
  case (Some es)
  with assms have d: "disk s = Some (map_of es)" by simp
  with assms(1) have tm: "table_inv (map_of es)" by (simp add: sys_inv_def)
  have "\<forall>(i, t) \<in> set es. record_inv t"
  proof (clarify)
    fix i t assume "(i, t) \<in> set es"
    moreover from assms(2) Some have "distinct (map fst es)" by simp
    ultimately have "map_of es i = Some t" by simp
    with tm show "record_inv t" by (rule table_inv_get)
  qed
  then have "table_inv (initDirs_loop es Map.empty)"
    by (intro table_inv_loop) (simp_all add: table_inv_def)
  with tm d Some show ?thesis
    by (simp add: restart_def initDirs_def sys_inv_def)
qed

lemma sys_inv_step: "sys_inv s \<Longrightarrow> enabled e s \<Longrightarrow> sys_inv (step fx e s)"
proof (cases e)
  case (Restart f)
  assume "sys_inv s" "enabled e s"
  with Restart show ?thesis by (simp add: sys_inv_restart)
qed (simp_all add: sys_inv_start sys_inv_stdout sys_inv_stderr sys_inv_heartbeat sys_inv_timeout
      sys_inv_grace sys_inv_close sys_inv_error sys_inv_cancel)

lemma sys_inv_runs: "runs fx s0 s \<Longrightarrow> sys_inv s0 \<Longrightarrow> sys_inv s"
  by (induction rule: runs.induct) (simp_all add: sys_inv_step)

lemma sys_inv_init: "sys_inv (init_sys codex_path logs_dir)"
  by (simp add: sys_inv_def init_sys_def table_inv_def)

subsection \<open>Heartbeat counts in the table and in the file\<close>


lemma heartbeatCount_activity [simp]:
  "heartbeatCount (updateActivity type bytes snippet now r) = heartbeatCount r"
  by (simp add: updateActivity_def Let_def split: option.splits)

lemma status_activity [simp]:
  "status (updateActivity type bytes snippet now r) = status r"
  by (simp add: updateActivity_def Let_def split: option.splits)

lemma heartbeatCount_close [simp]:
  "heartbeatCount (close_record fx code signal now res r) = heartbeatCount r"
  by (simp add: close_record_def Let_def)

lemma heartbeatCount_error [simp]:
  "heartbeatCount (error_record fx message code now r) = heartbeatCount r"
  by (simp add: error_record_def Let_def)

lemma status_error [simp]: "status (error_record fx message code now r) = ''failed''"
  by (simp add: error_record_def Let_def)


lemma heartbeatCount_reconcile [simp]: "heartbeatCount (reconcile r) = heartbeatCount r"
  by (simp add: reconcile_def)



lemma disk_restart [simp]: "disk (restart f s) = disk s"
  by (simp add: restart_def initDirs_def split: option.splits)

lemma effects_restart [simp]: "effects (restart f s) = effects s"
  by (simp add: restart_def initDirs_def split: option.splits)




lemma heartbeat_events_append [simp]:
  "heartbeat_events t (xs @ ys) = heartbeat_events t xs @ heartbeat_events t ys"
  by (simp add: heartbeat_events_def)

lemma heartbeat_events_Nil [simp]: "heartbeat_events t [] = []"
  by (simp add: heartbeat_events_def)




subsection \<open>The concrete state is reachable\<close>

lemma example_sys_started:
  "handleCodexAgent example_args ''a1b2c3d4'' (Some 4242) 1000 (init_sys ''codex'' ''/logs'') = example_sys"
  by (simp add: handleCodexAgent_def example_args_def example_sys_def example_record_def
      init_sys_def Let_def saveTasks_def emit_def or_default_def DEFAULT_MODEL_def
      DEFAULT_REASONING_EFFORT_def join_with_def quote_arg_def)

lemma example_reachable: "reachable example_fx ''codex'' ''/logs'' example_sys"
proof -
  have "runs example_fx (init_sys ''codex'' ''/logs'')
          (step example_fx (Start example_args ''a1b2c3d4'' (Some 4242) 1000) (init_sys ''codex'' ''/logs''))"
    by (rule runs_step [OF runs_refl]) (simp add: init_sys_def)
  then show ?thesis by (simp add: reachable_def example_sys_started)
qed

lemma reachable_step:
  "reachable fx codex_path logs_dir s \<Longrightarrow> enabled e s \<Longrightarrow> reachable fx codex_path logs_dir (step fx e s)"
  unfolding reachable_def by (rule runs_step)

lemma example_restarted_reachable:
  "reachable example_fx ''codex'' ''/logs'' (restart (Some [(''a1b2c3d4'', example_record)]) example_sys)"
  using reachable_step [OF example_reachable, of "Restart (Some [(''a1b2c3d4'', example_record)])" ]
  by (simp add: example_sys_def)

lemma example_closed_reachable:
  "reachable example_fx ''codex'' ''/logs'' (on_close example_fx ''a1b2c3d4'' (Some 1) None 9000 None example_sys)"
  using reachable_step [OF example_reachable, of "Close ''a1b2c3d4'' (Some 1) None 9000 None"]
  by (simp add: example_sys_def)

lemma example_tasks: "tasks example_sys ''a1b2c3d4'' = Some example_record"
  by (simp add: example_sys_def)












subsection \<open>The state after each callback\<close>









lemma status_start:
  "map_option status (tasks (handleCodexAgent args taskId codex_pid now s) taskId) = Some ''running''"
  by (simp add: handleCodexAgent_def Let_def saveTasks_def emit_def)




subsection \<open>The file knows every task; a timed-out task is chased\<close>












section \<open>C1: cancellation, then exit\<close>




section \<open>C2: reconciliation on load\<close>

text \<open>
  Claim C2, as the code has it. \<open>initDirs\<close> loads every record of the file: one whose
  status is \<open>running\<close> gets status \<open>interrupted\<close> and the failure reason
  \<open>Server restarted while task was running\<close>, every other record is loaded
  unchanged. Nothing is spawned or resumed: the handle table, the timers, the
  effects and the file are as before.
\<close>

theorem C2_load_reconciles:
  assumes "distinct (map fst savedTasks)" and "(i, t) \<in> set savedTasks"
  shows "tasks (initDirs (Some savedTasks) s) i =
           Some (if status t = ''running''
                 then t\<lparr>status := ''interrupted'',
                        failureReason := Some ''Server restarted while task was running''\<rparr>
                 else t)
       \<and> activeProcesses (initDirs (Some savedTasks) s) = activeProcesses s
       \<and> effects (initDirs (Some savedTasks) s) = effects s
       \<and> heartbeatInterval (initDirs (Some savedTasks) s) = heartbeatInterval s
       \<and> timeout (initDirs (Some savedTasks) s) = timeout s
       \<and> graceTimers (initDirs (Some savedTasks) s) = graceTimers s
       \<and> disk (initDirs (Some savedTasks) s) = disk s"
  using initDirs_loop_entry [OF assms, of "tasks s"]
  by (simp add: initDirs_def reconcile_def)

text \<open>The theorem at a file with one running and one failed record.\<close>

theorem C2_load_reconciles_witness:
  "tasks (initDirs (Some [(''a1b2c3d4'', example_record),
                          (''0f0f0f0f'', example_record\<lparr>status := ''failed''\<rparr>)]) example_sys) ''a1b2c3d4'' =
     Some (example_record\<lparr>status := ''interrupted'',
                          failureReason := Some ''Server restarted while task was running''\<rparr>)
   \<and> tasks (initDirs (Some [(''a1b2c3d4'', example_record),
                          (''0f0f0f0f'', example_record\<lparr>status := ''failed''\<rparr>)]) example_sys) ''0f0f0f0f'' =
     Some (example_record\<lparr>status := ''failed''\<rparr>)"
  using C2_load_reconciles [of "[(''a1b2c3d4'', example_record),
                          (''0f0f0f0f'', example_record\<lparr>status := ''failed''\<rparr>)]" "''a1b2c3d4''" example_record example_sys]
    C2_load_reconciles [of "[(''a1b2c3d4'', example_record),
                          (''0f0f0f0f'', example_record\<lparr>status := ''failed''\<rparr>)]" "''0f0f0f0f''" "example_record\<lparr>status := ''failed''\<rparr>" example_sys]
  by (simp add: example_record_def)

text \<open>
  The claim as stated fails: the failure reason that \<open>initDirs\<close> writes is not the
  string \<open>supervisor restarted while task was running\<close>.
\<close>

theorem C2_counterexample:
  "map_option failureReason (tasks (initDirs (Some [(''a1b2c3d4'', example_record)]) example_sys) ''a1b2c3d4'') =
     Some (Some ''Server restarted while task was running'')
   \<and> map_option failureReason (tasks (initDirs (Some [(''a1b2c3d4'', example_record)]) example_sys) ''a1b2c3d4'') \<noteq>
     Some (Some ''supervisor restarted while task was running'')"
  by (simp add: initDirs_def reconcile_def example_record_def)

section \<open>C3: exit code 0\<close>




section \<open>C4: completedAt and the status\<close>

text \<open>
  Claim C4, as the code has it. In every state that the server can reach from its
  start by any sequence of events (tool calls, callbacks, restarts), every record of
  the task table has \<open>completedAt\<close> set if and only if its status is \<open>completed\<close> or
  \<open>failed\<close>, the two statuses that the \<open>close\<close> and \<open>error\<close> callbacks assign together
  with \<open>completedAt\<close>; and its status is \<open>running\<close>, \<open>completed\<close>, \<open>failed\<close> or
  \<open>interrupted\<close>. A record that \<open>initDirs\<close> has set to \<open>interrupted\<close> therefore has no
  \<open>completedAt\<close>, and no record has status \<open>cancelled\<close>.
\<close>

theorem C4_completedAt:
  assumes "reachable fx codex_path logs_dir s" and "tasks s taskId = Some r"
  shows "((completedAt r \<noteq> None) = (status r = ''completed'' \<or> status r = ''failed''))
       \<and> (status r = ''running'' \<or> status r = ''completed'' \<or> status r = ''failed''
            \<or> status r = ''interrupted'')"
proof -
  from assms(1) have "sys_inv s"
    unfolding reachable_def by (rule sys_inv_runs) (rule sys_inv_init)
  then have "record_inv r"
    using assms(2) by (simp add: sys_inv_def table_inv_def)
  then show ?thesis by (simp add: record_inv_def)
qed

text \<open>The theorem at the concrete state after the process has closed with exit code 1.\<close>

theorem C4_completedAt_witness:
  "reachable example_fx ''codex'' ''/logs'' (on_close example_fx ''a1b2c3d4'' (Some 1) None 9000 None example_sys)
   \<and> map_option status (tasks (on_close example_fx ''a1b2c3d4'' (Some 1) None 9000 None example_sys) ''a1b2c3d4'') = Some ''failed''
   \<and> map_option completedAt (tasks (on_close example_fx ''a1b2c3d4'' (Some 1) None 9000 None example_sys) ''a1b2c3d4'') \<noteq> Some None"
  using C4_completedAt [OF example_closed_reachable, of "''a1b2c3d4''" "close_record example_fx (Some 1) None 9000 None example_record"]
    example_closed_reachable
  by (simp add: tasks_on_close [OF example_tasks] close_record_status)

text \<open>
  The claim as stated fails: start a task, restart the server. The reloaded record has
  the terminal status \<open>interrupted\<close> and no \<open>completedAt\<close>.
\<close>

theorem C4_counterexample:
  "reachable example_fx ''codex'' ''/logs'' (restart (Some [(''a1b2c3d4'', example_record)]) example_sys)
   \<and> map_option status (tasks (restart (Some [(''a1b2c3d4'', example_record)]) example_sys) ''a1b2c3d4'') = Some ''interrupted''
   \<and> map_option completedAt (tasks (restart (Some [(''a1b2c3d4'', example_record)]) example_sys) ''a1b2c3d4'') = Some None"
  using example_restarted_reachable
  by (simp add: restart_def initDirs_def reconcile_def example_record_def)

section \<open>C5: a reason set before the exit is kept\<close>

text \<open>
  Claim C5. The \<open>close\<close> callback keeps a failure reason that is already in the
  record (any non-empty string): it does not replace it by the reason it would
  derive from the exit code or the signal. In particular the reason written by the
  timeout callback and the reason written by \<open>handleCodexCancel\<close> are still in the
  record after the \<open>close\<close> callback, whatever the exit code and the signal are.
\<close>

theorem C5_reason_preserved:
  assumes "tasks s taskId = Some r"
  shows "(failureReason r = Some x \<and> x \<noteq> [] \<longrightarrow>
            map_option failureReason (tasks (on_close fx taskId code signal now res s) taskId) =
              Some (Some x))
       \<and> map_option failureReason
           (tasks (on_close fx taskId code signal now res (timeout_callback fx taskId now0 s)) taskId) =
           Some (Some (''Timeout after '' @ formatDuration fx (now0 - startedAt r) @
                       '' (limit: '' @ formatDuration fx (timeoutMs r) @ '')''))
       \<and> (status r = ''running'' \<and> activeProcesses s taskId = Some codex \<longrightarrow>
            map_option failureReason
              (tasks (on_close fx taskId code signal now res (snd (handleCodexCancel taskId None s))) taskId) =
              Some (Some ''Cancelled by user''))"
proof -
  have a: "failureReason r = Some x \<and> x \<noteq> [] \<longrightarrow>
            map_option failureReason (tasks (on_close fx taskId code signal now res s) taskId) =
              Some (Some x)"
    using assms by (simp add: tasks_on_close close_record_keeps_reason)
  let ?x = "''Timeout after '' @ formatDuration fx (now0 - startedAt r) @
                       '' (limit: '' @ formatDuration fx (timeoutMs r) @ '')''"
  have t: "tasks (timeout_callback fx taskId now0 s) taskId = Some (r\<lparr>failureReason := Some ?x\<rparr>)"
    by (simp add: timeout_fired [OF assms])
  have "failureReason (close_record fx code signal now res (r\<lparr>failureReason := Some ?x\<rparr>)) = Some ?x"
    by (rule close_record_keeps_reason) simp_all
  then have b: "map_option failureReason
           (tasks (on_close fx taskId code signal now res (timeout_callback fx taskId now0 s)) taskId) =
           Some (Some ?x)"
    by (simp add: tasks_on_close [OF t])
  have c: "status r = ''running'' \<and> activeProcesses s taskId = Some codex \<longrightarrow>
            map_option failureReason
              (tasks (on_close fx taskId code signal now res (snd (handleCodexCancel taskId None s))) taskId) =
              Some (Some ''Cancelled by user'')"
  proof (intro impI, elim conjE)
    assume run: "status r = ''running''" and h: "activeProcesses s taskId = Some codex"
    have c1: "tasks (snd (handleCodexCancel taskId None s)) taskId =
                Some (r\<lparr>failureReason := Some ''Cancelled by user''\<rparr>)"
      by (simp add: cancel_live [OF assms run h])
    have "failureReason (close_record fx code signal now res
             (r\<lparr>failureReason := Some ''Cancelled by user''\<rparr>)) = Some ''Cancelled by user''"
      by (rule close_record_keeps_reason) simp_all
    then show "map_option failureReason
              (tasks (on_close fx taskId code signal now res (snd (handleCodexCancel taskId None s))) taskId) =
              Some (Some ''Cancelled by user'')"
      by (simp add: tasks_on_close [OF c1])
  qed
  from a b c show ?thesis by blast
qed

text \<open>The theorem at the concrete state, for a timeout reason and for a cancellation,
  each followed by an exit with code 1.\<close>

theorem C5_reason_preserved_witness:
  "map_option failureReason
     (tasks (on_close example_fx ''a1b2c3d4'' (Some 1) None 70000 None
              (example_sys\<lparr>tasks := [''a1b2c3d4'' \<mapsto> example_record\<lparr>failureReason := Some ''Timeout after 1m 0s (limit: 1m 0s)''\<rparr>]\<rparr>))
        ''a1b2c3d4'') = Some (Some ''Timeout after 1m 0s (limit: 1m 0s)'')
   \<and> map_option failureReason
     (tasks (on_close example_fx ''a1b2c3d4'' (Some 1) None 70000 None
              (snd (handleCodexCancel ''a1b2c3d4'' None example_sys))) ''a1b2c3d4'') =
       Some (Some ''Cancelled by user'')"
  using C5_reason_preserved [of "example_sys\<lparr>tasks := [''a1b2c3d4'' \<mapsto> example_record\<lparr>failureReason := Some ''Timeout after 1m 0s (limit: 1m 0s)''\<rparr>]\<rparr>"
       "''a1b2c3d4''" "example_record\<lparr>failureReason := Some ''Timeout after 1m 0s (limit: 1m 0s)''\<rparr>"
       "''Timeout after 1m 0s (limit: 1m 0s)''" example_fx "Some 1" None 70000 None]
    C5_reason_preserved [of example_sys "''a1b2c3d4''" example_record _ example_fx "Some 1" None 70000 None _ "Some 4242"]
  by (simp add: example_sys_def example_record_def)

section \<open>C6: cancelling twice\<close>




section \<open>C7: the timeout\<close>




section \<open>C9: no heartbeat after the terminal transition\<close>



section \<open>C10: cancellation without a live handle\<close>

text \<open>
  Claim C10. When the record of the task has status \<open>running\<close> and no handle is
  registered for it, \<open>handleCodexCancel\<close> returns an error result and the server state
  is exactly what it was: the record is untouched (no failure reason is set), no
  signal is sent and no timer is armed.
\<close>

theorem C10_cancel_without_handle:
  assumes "tasks s taskId = Some r" and "status r = ''running''"
    and "activeProcesses s taskId = None"
  shows "handleCodexCancel taskId append_error s =
           (\<lparr>content = ''Task '' @ taskId @ '' has no active process handle'', isError = True\<rparr>, s)"
  using assms by (simp add: handleCodexCancel_def)

text \<open>The theorem at the concrete state with its handle table emptied.\<close>

theorem C10_cancel_without_handle_witness:
  "handleCodexCancel ''a1b2c3d4'' None (example_sys\<lparr>activeProcesses := Map.empty\<rparr>) =
     (\<lparr>content = ''Task a1b2c3d4 has no active process handle'', isError = True\<rparr>,
      example_sys\<lparr>activeProcesses := Map.empty\<rparr>)"
  using C10_cancel_without_handle [of "example_sys\<lparr>activeProcesses := Map.empty\<rparr>" "''a1b2c3d4''" example_record None]
  by (simp add: example_sys_def example_record_def)

end
